theory Spec2Isabelle
  imports Complex_Main
begin

section \<open>JavaScript numbers\<close>

text \<open>
  Every amount of the application is a JavaScript \<open>number\<close>. The model keeps the three
  non-finite values of a \<open>number\<close> apart from the finite ones and computes on the finite
  ones with exact real arithmetic: rounding and overflow are not modelled, and the two
  zeros are one value (a zero divisor is taken as \<open>+0\<close>). The properties below are
  therefore stated on the operations of the code in the order of the code, and never
  regroup or simplify them.
\<close>

datatype jsnum = Fin real | PInf | NInf | NaN

fun jneg :: "jsnum \<Rightarrow> jsnum" where
  "jneg (Fin a) = Fin (- a)"
| "jneg PInf = NInf"
| "jneg NInf = PInf"
| "jneg NaN = NaN"

fun jadd :: "jsnum \<Rightarrow> jsnum \<Rightarrow> jsnum" where
  "jadd (Fin a) (Fin b) = Fin (a + b)"
| "jadd NaN _ = NaN"
| "jadd _ NaN = NaN"
| "jadd PInf NInf = NaN"
| "jadd NInf PInf = NaN"
| "jadd PInf _ = PInf"
| "jadd NInf _ = NInf"
| "jadd _ PInf = PInf"
| "jadd _ NInf = NInf"

fun jsub :: "jsnum \<Rightarrow> jsnum \<Rightarrow> jsnum" where
  "jsub a b = jadd a (jneg b)"

fun jmul :: "jsnum \<Rightarrow> jsnum \<Rightarrow> jsnum" where
  "jmul (Fin a) (Fin b) = Fin (a * b)"
| "jmul NaN _ = NaN"
| "jmul _ NaN = NaN"
| "jmul (Fin a) PInf = (if a = 0 then NaN else if 0 < a then PInf else NInf)"
| "jmul (Fin a) NInf = (if a = 0 then NaN else if 0 < a then NInf else PInf)"
| "jmul PInf (Fin b) = (if b = 0 then NaN else if 0 < b then PInf else NInf)"
| "jmul NInf (Fin b) = (if b = 0 then NaN else if 0 < b then NInf else PInf)"
| "jmul PInf PInf = PInf"
| "jmul PInf NInf = NInf"
| "jmul NInf PInf = NInf"
| "jmul NInf NInf = PInf"

fun jdiv :: "jsnum \<Rightarrow> jsnum \<Rightarrow> jsnum" where
  "jdiv (Fin a) (Fin b) =
     (if b = 0 then (if a = 0 then NaN else if 0 < a then PInf else NInf)
      else Fin (a / b))"
| "jdiv NaN _ = NaN"
| "jdiv _ NaN = NaN"
| "jdiv (Fin a) PInf = Fin 0"
| "jdiv (Fin a) NInf = Fin 0"
| "jdiv PInf (Fin b) = (if 0 \<le> b then PInf else NInf)"
| "jdiv NInf (Fin b) = (if 0 \<le> b then NInf else PInf)"
| "jdiv PInf PInf = NaN"
| "jdiv PInf NInf = NaN"
| "jdiv NInf PInf = NaN"
| "jdiv NInf NInf = NaN"

text \<open>Truthiness of a number (\<open>x ? a : b\<close>, \<open>x || y\<close>): zero and NaN are falsy.\<close>

fun truthy :: "jsnum \<Rightarrow> bool" where
  "truthy (Fin a) = (a \<noteq> 0)"
| "truthy NaN = False"
| "truthy PInf = True"
| "truthy NInf = True"

fun isFinite :: "jsnum \<Rightarrow> bool" where
  "isFinite (Fin a) = True"
| "isFinite PInf = False"
| "isFinite NInf = False"
| "isFinite NaN = False"

text \<open>The sum of a list of numbers, added from the left starting at zero.\<close>

definition jsum :: "jsnum list \<Rightarrow> jsnum" where
  "jsum xs = foldl jadd (Fin 0) xs"

section \<open>Data model (types.ts)\<close>

datatype Currency = COP | USD

datatype AccountType = DEBIT | CREDIT

record Transaction =
  tx_id :: string
  tx_userId :: string
  tx_accountId :: string
  tx_amount :: jsnum
  tx_newBalance :: jsnum
  tx_date :: int  \<comment> \<open>\<open>new Date(date).getTime()\<close>: milliseconds since the epoch\<close>
  tx_exchangeRateUsed :: jsnum

record Account =
  acc_id :: string
  acc_userId :: string
  acc_groupId :: "string option"
  acc_name :: string
  acc_description :: "string option"
  acc_type :: AccountType
  acc_currency :: Currency
  acc_balance :: jsnum
  acc_creditLimit :: "jsnum option"
  acc_initialBalance :: jsnum
  acc_createdAt :: string
  acc_sortOrder :: int
  acc_category :: "string option"

record Group =
  grp_id :: string
  grp_userId :: string
  grp_name :: string
  grp_sortOrder :: int

record Settings =
  usdToCopRate :: jsnum

record AppData =
  accounts :: "Account list"
  groups :: "Group list"
  transactions :: "Transaction list"
  settings :: Settings

text \<open>\<open>PROJECT_START_DATE = '2025-12-31T00:00:00.000Z'\<close> as milliseconds since the epoch.\<close>

definition PROJECT_START_DATE :: int where
  "PROJECT_START_DATE = 1767139200000"

section \<open>Currency conversion (convertValue)\<close>

definition convertValue :: "jsnum \<Rightarrow> jsnum \<Rightarrow> Currency \<Rightarrow> Currency \<Rightarrow> jsnum" where
  "convertValue rate val from to =
     (if from = to then val
      else if from = USD then jmul val rate else jdiv val rate)"

section \<open>Valuation (Dashboard.metrics)\<close>

record Metrics =
  totalAssets :: jsnum
  totalLiabilities :: jsnum
  netWorth :: jsnum
  liquidity :: jsnum
  buyingPower :: jsnum
  creditLimitTotal :: jsnum

text \<open>
  The body of the \<open>forEach\<close>: the four running totals are
  (totalAssets, totalLiabilities, liquidity, creditLimitTotal).
\<close>

definition metricsStep ::
  "jsnum \<Rightarrow> jsnum \<times> jsnum \<times> jsnum \<times> jsnum \<Rightarrow> Account \<Rightarrow> jsnum \<times> jsnum \<times> jsnum \<times> jsnum" where
  "metricsStep rate st acc =
     (case st of (tAssets, tLiab, liq, limTotal) \<Rightarrow>
        let valInCop = convertValue rate (acc_balance acc) (acc_currency acc) COP in
        if acc_type acc = CREDIT then
          (tAssets, jadd tLiab valInCop, liq,
           (case acc_creditLimit acc of
              None \<Rightarrow> limTotal
            | Some cLimit \<Rightarrow>
                if truthy cLimit
                then jadd limTotal (convertValue rate cLimit (acc_currency acc) COP)
                else limTotal))
        else (jadd tAssets valInCop, tLiab, jadd liq valInCop, limTotal))"

definition metrics :: "jsnum \<Rightarrow> Account list \<Rightarrow> Metrics" where
  "metrics rate accs =
     (case foldl (metricsStep rate) (Fin 0, Fin 0, Fin 0, Fin 0) accs of
        (tAssets, tLiab, liq, limTotal) \<Rightarrow>
          \<lparr> totalAssets = tAssets, totalLiabilities = tLiab, netWorth = jsub tAssets tLiab,
            liquidity = liq, buyingPower = jadd liq (jsub limTotal tLiab),
            creditLimitTotal = limTotal \<rparr>)"

text \<open>The converted balance of an account, as \<open>metrics\<close> and \<open>stats\<close> compute it.\<close>

definition balanceInCop :: "jsnum \<Rightarrow> Account \<Rightarrow> jsnum" where
  "balanceInCop rate acc = convertValue rate (acc_balance acc) (acc_currency acc) COP"

section \<open>Historical reconstruction (Dashboard.chartData)\<close>

record Point =
  pt_date :: int
  pt_netWorth :: jsnum
  pt_liquidity :: jsnum
  pt_buyingPower :: jsnum

text \<open>\<open>tx.exchangeRateUsed ? tx.amount * tx.exchangeRateUsed : tx.amount\<close>\<close>

definition amountCOP :: "Transaction \<Rightarrow> jsnum" where
  "amountCOP tx =
     (if truthy (tx_exchangeRateUsed tx) then jmul (tx_amount tx) (tx_exchangeRateUsed tx)
      else tx_amount tx)"

text \<open>
  The body of the \<open>while\<close> loop on the pair (curLiq, curLiabilities):
  \<open>acc?.type === AccountType.CREDIT\<close> is false when \<open>find\<close> returns nothing.
\<close>

definition applyTx :: "Account list \<Rightarrow> Transaction \<Rightarrow> jsnum \<times> jsnum \<Rightarrow> jsnum \<times> jsnum" where
  "applyTx accs tx st =
     (case st of (curLiq, curLiabilities) \<Rightarrow>
        if map_option acc_type (find (\<lambda>a. acc_id a = tx_accountId tx) accs) = Some CREDIT
        then (curLiq, jsub curLiabilities (amountCOP tx))
        else (jsub curLiq (amountCOP tx), curLiabilities))"

text \<open>
  The \<open>while\<close> loop: the transactions from \<open>txIdx\<close> on are the list argument; the loop
  returns the transactions it has not consumed together with the running totals.
\<close>

fun consumeTxs ::
  "Account list \<Rightarrow> int \<Rightarrow> Transaction list \<Rightarrow> jsnum \<times> jsnum
     \<Rightarrow> Transaction list \<times> (jsnum \<times> jsnum)" where
  "consumeTxs accs dayStart [] st = ([], st)"
| "consumeTxs accs dayStart (tx # rest) st =
     (if dayStart \<le> tx_date tx then consumeTxs accs dayStart rest (applyTx accs tx st)
      else (tx # rest, st))"

definition mkPoint :: "int \<Rightarrow> jsnum \<Rightarrow> jsnum \<times> jsnum \<Rightarrow> Point" where
  "mkPoint dayStart curLimit st =
     (case st of (curLiq, curLiabilities) \<Rightarrow>
        \<lparr> pt_date = dayStart, pt_netWorth = jsub curLiq curLiabilities, pt_liquidity = curLiq,
          pt_buyingPower = jadd curLiq (jsub curLimit curLiabilities) \<rparr>)"

text \<open>
  The \<open>for\<close> loop over \<open>i < diffDays\<close>; \<open>dayStartOf i\<close> is the local midnight \<open>i\<close> days
  before today; \<open>points.unshift\<close> puts each new point in front.
\<close>

function chartLoop ::
  "(nat \<Rightarrow> int) \<Rightarrow> Account list \<Rightarrow> jsnum \<Rightarrow> nat \<Rightarrow> nat \<Rightarrow> Transaction list
     \<Rightarrow> jsnum \<times> jsnum \<Rightarrow> Point list \<Rightarrow> Point list" where
  "chartLoop dayStartOf accs curLimit diffDays i txs st points =
     (if i < diffDays then
        (case consumeTxs accs (dayStartOf i) txs st of
           (txs', st') \<Rightarrow>
             chartLoop dayStartOf accs curLimit diffDays (Suc i) txs' st'
               (mkPoint (dayStartOf i) curLimit st' # points))
      else points)"
  by pat_completeness auto
termination
  by (relation "measure (\<lambda>(dayStartOf, accs, curLimit, diffDays, i, txs, st, points). diffDays - i)")
     auto

declare chartLoop.simps [simp del]

text \<open>
  The calendar of the JavaScript \<open>Date\<close> object in the local time zone, which the
  application reads from its environment: \<open>monthsBefore now k\<close> is
  \<open>d.setMonth(d.getMonth() - k)\<close>, \<open>yearBefore now\<close> is
  \<open>d.setFullYear(d.getFullYear() - 1)\<close>, and \<open>dayStartBefore now i\<close> is
  \<open>new Date(y, m, d - i).getTime()\<close>, each on the date \<open>d\<close> with time value \<open>now\<close>.
\<close>

record JsDate =
  monthsBefore :: "int \<Rightarrow> nat \<Rightarrow> int"
  yearBefore :: "int \<Rightarrow> int"
  dayStartBefore :: "int \<Rightarrow> nat \<Rightarrow> int"

definition diffDaysOf :: "int \<Rightarrow> nat" where
  "diffDaysOf now =
     max 1 (nat \<lceil>real_of_int \<bar>now - PROJECT_START_DATE\<bar> / (1000 * 60 * 60 * 24)\<rceil>)"

definition sortedTxs :: "Transaction list \<Rightarrow> Transaction list" where
  "sortedTxs txs = sort_key (\<lambda>t. - tx_date t) txs"

definition chartData :: "JsDate \<Rightarrow> int \<Rightarrow> AppData \<Rightarrow> Point list" where
  "chartData cal now data =
     (let m = metrics (usdToCopRate (settings data)) (accounts data) in
      chartLoop (dayStartBefore cal now) (accounts data) (creditLimitTotal m)
        (diffDaysOf now) 0 (sortedTxs (transactions data))
        (liquidity m, totalLiabilities m) [])"

text \<open>A calendar for evaluation: UTC days, months of 30 days, years of 365 days.\<close>

definition msPerDay :: int where
  "msPerDay = 86400000"

definition utcCalendar :: JsDate where
  "utcCalendar =
     \<lparr> monthsBefore = (\<lambda>now k. now - int k * 30 * msPerDay),
       yearBefore = (\<lambda>now. now - 365 * msPerDay),
       dayStartBefore = (\<lambda>now i. (now div msPerDay - int i) * msPerDay) \<rparr>"

section \<open>Performance analytics (PerformancePage.stats)\<close>

text \<open>
  \<open>Math.pow\<close> on the numbers of this model. A negative base has a real power only for an
  integer exponent; a zero base is taken as \<open>+0\<close>. The integer test is made on the exact
  exponent: an exponent that the code has rounded away from an integer is not modelled.
\<close>

definition isInteger :: "real \<Rightarrow> bool" where
  "isInteger e = (of_int \<lfloor>e\<rfloor> = e)"

definition oddInteger :: "real \<Rightarrow> bool" where
  "oddInteger e = (isInteger e \<and> odd \<lfloor>e\<rfloor>)"

fun jpow :: "jsnum \<Rightarrow> jsnum \<Rightarrow> jsnum" where
  "jpow b NaN = NaN"
| "jpow b (Fin e) =
     (if e = 0 then Fin 1
      else case b of
        NaN \<Rightarrow> NaN
      | PInf \<Rightarrow> if 0 < e then PInf else Fin 0
      | NInf \<Rightarrow> if 0 < e then (if oddInteger e then NInf else PInf) else Fin 0
      | Fin x \<Rightarrow>
          if x = 0 then (if 0 < e then Fin 0 else PInf)
          else if x < 0 then (if isInteger e then Fin (x powi \<lfloor>e\<rfloor>) else NaN)
          else Fin (x powr e))"
| "jpow b PInf =
     (case b of
        NaN \<Rightarrow> NaN
      | PInf \<Rightarrow> PInf
      | NInf \<Rightarrow> PInf
      | Fin x \<Rightarrow> if 1 < \<bar>x\<bar> then PInf else if \<bar>x\<bar> = 1 then NaN else Fin 0)"
| "jpow b NInf =
     (case b of
        NaN \<Rightarrow> NaN
      | PInf \<Rightarrow> Fin 0
      | NInf \<Rightarrow> Fin 0
      | Fin x \<Rightarrow> if 1 < \<bar>x\<bar> then Fin 0 else if \<bar>x\<bar> = 1 then NaN else PInf)"

datatype Dimension = GENERAL | GROUP | CATEGORY

record Stats =
  ea :: jsnum
  normal :: jsnum
  projections :: "(string \<times> jsnum) list"
  currentVal :: jsnum

text \<open>1. the accounts in scope\<close>

definition inScopeAccs :: "Dimension \<Rightarrow> string \<Rightarrow> Account list \<Rightarrow> Account list" where
  "inScopeAccs dimension filterId accs =
     (let byGroup =
            (if dimension = GROUP \<and> filterId \<noteq> ''ALL''
             then filter (\<lambda>a. acc_groupId a = Some filterId) accs else accs)
      in if dimension = CATEGORY \<and> filterId \<noteq> ''ALL''
         then filter (\<lambda>a. acc_category a = Some filterId) accs else byGroup)"

definition rangeTxs :: "Account list \<Rightarrow> Transaction list \<Rightarrow> Transaction list" where
  "rangeTxs inScope txs =
     (let accIds = map acc_id inScope in filter (\<lambda>t. tx_accountId t \<in> set accIds) txs)"

text \<open>The start of the selected window; any range other than the four named ones is ALL.\<close>

definition startDate :: "JsDate \<Rightarrow> string \<Rightarrow> int \<Rightarrow> int" where
  "startDate cal timeRange now =
     (if timeRange = ''1M'' then monthsBefore cal now 1
      else if timeRange = ''3M'' then monthsBefore cal now 3
      else if timeRange = ''6M'' then monthsBefore cal now 6
      else if timeRange = ''1Y'' then yearBefore cal now
      else PROJECT_START_DATE)"

definition timelyTxs :: "int \<Rightarrow> Transaction list \<Rightarrow> Transaction list" where
  "timelyTxs start rtxs = sort_key tx_date (filter (\<lambda>t. start \<le> tx_date t) rtxs)"

definition currentValOf :: "jsnum \<Rightarrow> Account list \<Rightarrow> jsnum" where
  "currentValOf rate inScope =
     foldl (\<lambda>sum acc.
              let v = convertValue rate (acc_balance acc) (acc_currency acc) COP in
              if acc_type acc = CREDIT then jsub sum v else jadd sum v)
       (Fin 0) inScope"

text \<open>\<open>let startVal = currentVal; timelyTxs.forEach(tx => { startVal -= ... })\<close>\<close>

definition startValOf :: "jsnum \<Rightarrow> Transaction list \<Rightarrow> jsnum" where
  "startValOf curVal ttxs = foldl (\<lambda>sv tx. jsub sv (amountCOP tx)) curVal ttxs"

definition yearsOf :: "int \<Rightarrow> int \<Rightarrow> jsnum" where
  "yearsOf now start =
     (let diffMs = now - start in jdiv (Fin (of_int diffMs)) (Fin (1000 * 60 * 60 * 24 * 365)))"

definition normalOf :: "jsnum \<Rightarrow> jsnum \<Rightarrow> jsnum" where
  "normalOf endVal startVal =
     (if startVal \<noteq> Fin 0 then jsub (jdiv endVal startVal) (Fin 1) else Fin 0)"

definition eaOf :: "jsnum \<Rightarrow> jsnum \<Rightarrow> jsnum \<Rightarrow> jsnum" where
  "eaOf endVal startVal years =
     (if startVal \<noteq> Fin 0
      then jsub (jpow (jdiv endVal startVal)
                      (jdiv (Fin 1) (if truthy years then years else Fin 1))) (Fin 1)
      else Fin 0)"

definition projectionsOf :: "jsnum \<Rightarrow> jsnum \<Rightarrow> (string \<times> jsnum) list" where
  "projectionsOf endVal eaVal =
     (let monthlyRate = jsub (jpow (jadd (Fin 1) eaVal) (jdiv (Fin 1) (Fin 12))) (Fin 1) in
      map (\<lambda>(label, months). (label, jmul endVal (jpow (jadd (Fin 1) monthlyRate) (Fin months))))
        [(''3 meses'', 3), (''6 meses'', 6), (''12 meses'', 12)])"

definition stats :: "JsDate \<Rightarrow> int \<Rightarrow> AppData \<Rightarrow> string \<Rightarrow> Dimension \<Rightarrow> string \<Rightarrow> Stats" where
  "stats cal now data timeRange dimension filterId =
     (let inScope = inScopeAccs dimension filterId (accounts data);
          rtxs = rangeTxs inScope (transactions data)
      in if rtxs = [] \<and> inScope = []
         then \<lparr> ea = Fin 0, normal = Fin 0, projections = [], currentVal = Fin 0 \<rparr>
         else
           let start = startDate cal timeRange now;
               ttxs = timelyTxs start rtxs;
               curVal = currentValOf (usdToCopRate (settings data)) inScope
           in if length ttxs < 1 \<and> inScope = []
              then \<lparr> ea = Fin 0, normal = Fin 0, projections = [], currentVal = curVal \<rparr>
              else if length ttxs < 1 \<and> 0 < length inScope
              then \<lparr> ea = Fin 0, normal = Fin 0, projections = [], currentVal = curVal \<rparr>
              else
                let startVal = startValOf curVal ttxs;
                    endVal = curVal;
                    normalVal = normalOf endVal startVal;
                    eaVal = eaOf endVal startVal (yearsOf now start)
                in \<lparr> ea = jmul eaVal (Fin 100), normal = jmul normalVal (Fin 100),
                     projections = projectionsOf endVal eaVal, currentVal = curVal \<rparr>)"

text \<open>The local variables of \<open>stats\<close> as functions of its inputs.\<close>

definition statsInScope :: "AppData \<Rightarrow> Dimension \<Rightarrow> string \<Rightarrow> Account list" where
  "statsInScope data dimension filterId = inScopeAccs dimension filterId (accounts data)"

definition statsCurrentVal :: "AppData \<Rightarrow> Dimension \<Rightarrow> string \<Rightarrow> jsnum" where
  "statsCurrentVal data dimension filterId =
     currentValOf (usdToCopRate (settings data)) (statsInScope data dimension filterId)"

definition statsTimelyTxs ::
  "JsDate \<Rightarrow> int \<Rightarrow> AppData \<Rightarrow> string \<Rightarrow> Dimension \<Rightarrow> string \<Rightarrow> Transaction list" where
  "statsTimelyTxs cal now data timeRange dimension filterId =
     timelyTxs (startDate cal timeRange now)
       (rangeTxs (statsInScope data dimension filterId) (transactions data))"

definition statsStartVal ::
  "JsDate \<Rightarrow> int \<Rightarrow> AppData \<Rightarrow> string \<Rightarrow> Dimension \<Rightarrow> string \<Rightarrow> jsnum" where
  "statsStartVal cal now data timeRange dimension filterId =
     startValOf (statsCurrentVal data dimension filterId)
       (statsTimelyTxs cal now data timeRange dimension filterId)"

section \<open>State updates (App)\<close>

text \<open>The state update of \<open>deleteGroup\<close> (the request to the remote store follows it).\<close>

definition deleteGroup :: "string \<Rightarrow> AppData \<Rightarrow> AppData" where
  "deleteGroup gid p =
     p\<lparr> groups := filter (\<lambda>g. grp_id g \<noteq> gid) (groups p),
        accounts := map (\<lambda>a. if acc_groupId a = Some gid then a\<lparr>acc_groupId := None\<rparr> else a)
                      (accounts p) \<rparr>"

fun jpositive :: "jsnum \<Rightarrow> bool" where
  "jpositive (Fin a) = (0 < a)"
| "jpositive PInf = True"
| "jpositive NInf = False"
| "jpositive NaN = False"

text \<open>
  \<open>refreshData\<close>: nothing happens when the store is not configured; a failed
  \<open>fetchAll\<close> (\<open>None\<close>) is caught and leaves the state as it was.
\<close>

definition refreshData :: "bool \<Rightarrow> AppData option \<Rightarrow> AppData \<Rightarrow> AppData" where
  "refreshData isConfigured fetchAll prev =
     (if \<not> isConfigured then prev
      else case fetchAll of
        None \<Rightarrow> prev
      | Some fetched \<Rightarrow>
          let filteredTransactions =
                filter (\<lambda>t. PROJECT_START_DATE \<le> tx_date t) (transactions fetched)
          in fetched\<lparr> transactions := filteredTransactions,
                      settings := (settings fetched)\<lparr> usdToCopRate :=
                        (if jpositive (usdToCopRate (settings prev))
                         then usdToCopRate (settings prev)
                         else if truthy (usdToCopRate (settings fetched))
                              then usdToCopRate (settings fetched) else Fin 4000) \<rparr> \<rparr>)"

text \<open>
  The state update of \<open>addTransaction\<close>; \<open>user\<close> is the identifier of the signed-in user,
  if any. The transaction is appended as it is given.
\<close>

definition addTransaction :: "string option \<Rightarrow> Transaction \<Rightarrow> bool \<Rightarrow> AppData \<Rightarrow> AppData" where
  "addTransaction user tx updateBal p =
     (case user of
        None \<Rightarrow> p
      | Some uid \<Rightarrow>
          let txWithUser = tx\<lparr> tx_userId := uid \<rparr>;
              newAccs = map (\<lambda>a. if acc_id a = tx_accountId tx \<and> updateBal
                                  then a\<lparr> acc_balance := tx_newBalance tx \<rparr> else a)
                          (accounts p)
          in p\<lparr> transactions := transactions p @ [txWithUser], accounts := newAccs \<rparr>)"

section \<open>Example data\<close>

text \<open>
  One debit account in COP holding 100, and the transaction that brought it from 0 to 100,
  recorded on 2025-12-31 at 01:00 UTC.
\<close>

definition exDebit :: Account where
  "exDebit =
     \<lparr> acc_id = ''a1'', acc_userId = ''u1'', acc_groupId = None, acc_name = ''cash'',
       acc_description = None, acc_type = DEBIT, acc_currency = COP, acc_balance = Fin 100,
       acc_creditLimit = None, acc_initialBalance = Fin 0, acc_createdAt = ''2025-12-31'',
       acc_sortOrder = 0, acc_category = None \<rparr>"

definition exTx :: Transaction where
  "exTx =
     \<lparr> tx_id = ''t1'', tx_userId = ''u1'', tx_accountId = ''a1'', tx_amount = Fin 100,
       tx_newBalance = Fin 100, tx_date = 1767142800000, tx_exchangeRateUsed = Fin 1 \<rparr>"

definition exData :: AppData where
  "exData =
     \<lparr> accounts = [exDebit], groups = [], transactions = [exTx],
       settings = \<lparr> usdToCopRate = Fin 4000 \<rparr> \<rparr>"

text \<open>The instant of \<open>exTx\<close>, the same hour one day later, and half a year of 365 days
  after the project start.\<close>

definition exNow :: int where
  "exNow = 1767142800000"

definition exNextDay :: int where
  "exNextDay = 1767229200000"

definition exHalfYear :: int where
  "exHalfYear = 1782907200000"

text \<open>A transaction of an account that is not in the account list.\<close>

definition exOrphanTx :: Transaction where
  "exOrphanTx = exTx\<lparr> tx_id := ''t2'', tx_accountId := ''gone'' \<rparr>"

text \<open>The same account holding 200 after the same transaction of 100.\<close>

definition exData200 :: AppData where
  "exData200 = exData\<lparr> accounts := [exDebit\<lparr> acc_balance := Fin 200 \<rparr>] \<rparr>"

text \<open>The annualized return as the specification words it: the window length in years is
  guarded to a minimum of 1.\<close>

definition eaSpec :: "jsnum \<Rightarrow> jsnum \<Rightarrow> real \<Rightarrow> jsnum" where
  "eaSpec curVal startVal years =
     jsub (jpow (jdiv curVal startVal) (jdiv (Fin 1) (Fin (max 1 years)))) (Fin 1)"

text \<open>
  \<open>startVal\<close> as the specification words it: \<open>currentVal\<close> minus the sum of the converted
  amounts of the transactions in scope whose timestamp falls within the window, from its
  start to now.
\<close>

definition startValSpec ::
  "JsDate \<Rightarrow> int \<Rightarrow> AppData \<Rightarrow> string \<Rightarrow> Dimension \<Rightarrow> string \<Rightarrow> jsnum" where
  "startValSpec cal now data timeRange dimension filterId =
     jsub (statsCurrentVal data dimension filterId)
       (jsum (map amountCOP
          (filter (\<lambda>t. startDate cal timeRange now \<le> tx_date t \<and> tx_date t \<le> now)
             (filter (\<lambda>t. tx_accountId t \<in> acc_id ` set (statsInScope data dimension filterId))
                (transactions data)))))"

text \<open>Half an hour after the project start, half an hour before \<open>exTx\<close>.\<close>

definition exBefore :: int where
  "exBefore = 1767141000000"

text \<open>
  A transaction of 50 on the example account dated 2025-12-01, thirty days before the
  project start, and the state after a refresh that fetched the example data followed by
  \<open>addTransaction\<close> of that transaction.
\<close>

definition exOldTx :: Transaction where
  "exOldTx =
     \<lparr> tx_id = ''t0'', tx_userId = ''u1'', tx_accountId = ''a1'', tx_amount = Fin 50,
       tx_newBalance = Fin 150, tx_date = 1764547200000, tx_exchangeRateUsed = Fin 1 \<rparr>"

definition exBackdated :: AppData where
  "exBackdated =
     addTransaction (Some ''u1'') exOldTx True (refreshData True (Some exData) exData)"

section \<open>Unfolding rules for evaluation\<close>

lemmas ex_defs = exDebit_def exTx_def exData_def exNow_def exNextDay_def exHalfYear_def
  exOrphanTx_def exData200_def

lemmas ex_state_defs = exBefore_def exOldTx_def exBackdated_def addTransaction_def
  refreshData_def

lemmas chart_defs = chartData_def diffDaysOf_def PROJECT_START_DATE_def sortedTxs_def
  metrics_def metricsStep_def convertValue_def chartLoop.simps utcCalendar_def msPerDay_def
  applyTx_def amountCOP_def mkPoint_def Let_def

lemmas stats_defs = stats_def inScopeAccs_def rangeTxs_def startDate_def timelyTxs_def
  currentValOf_def startValOf_def yearsOf_def normalOf_def eaOf_def projectionsOf_def
  statsInScope_def statsCurrentVal_def statsTimelyTxs_def statsStartVal_def
  amountCOP_def convertValue_def PROJECT_START_DATE_def Let_def

section \<open>Currency conversion\<close>

text \<open>
  Claim C4, as the code has it: with a zero exchange rate \<open>convertValue\<close> still returns a
  number and raises nothing, but from COP to USD it divides by the rate and the result is
  not finite for any value (NaN for zero and NaN, an infinity otherwise); it is never
  zero. From USD to COP a finite value is multiplied by the rate and gives zero, and
  between equal currencies the value comes back unchanged.
\<close>

theorem convertValue_zero_rate:
  "\<not> isFinite (convertValue (Fin 0) v COP USD)
   \<and> convertValue (Fin 0) (Fin x) USD COP = Fin 0
   \<and> convertValue (Fin 0) v c c = v"
  by (cases v) (simp_all add: convertValue_def)

text \<open>
  Claim C4 as stated fails: 100 COP at rate zero convert to \<open>+Infinity\<close> USD, not to zero.
\<close>

theorem convertValue_zero_rate_counterexample:
  "convertValue (Fin 0) (Fin 100) COP USD = PInf"
  by (simp add: convertValue_def)

section \<open>Valuation\<close>

lemma metrics_fold:
  "foldl (metricsStep rate) (a, l, q, c) accs =
     (foldl jadd a (map (balanceInCop rate) (filter (\<lambda>x. acc_type x \<noteq> CREDIT) accs)),
      foldl jadd l (map (balanceInCop rate) (filter (\<lambda>x. acc_type x = CREDIT) accs)),
      foldl jadd q (map (balanceInCop rate) (filter (\<lambda>x. acc_type x \<noteq> CREDIT) accs)),
      snd (snd (snd (foldl (metricsStep rate) (a, l, q, c) accs))))"
  by (induction accs arbitrary: a l q c) (simp_all add: metricsStep_def balanceInCop_def Let_def)

lemma metrics_netWorth_liquidity:
  "netWorth (metrics rate accs) =
     jsub (liquidity (metrics rate accs)) (totalLiabilities (metrics rate accs))"
  apply (subst (1 2 3) metrics_def)
  apply (subst (1 2 3) metrics_fold)
  apply simp
  done

text \<open>
  Claim C5: for every account list (empty or not) and every exchange rate, \<open>netWorth\<close> is
  \<open>totalAssets - totalLiabilities\<close>, \<open>totalAssets\<close> is the sum of the converted balances of
  the accounts that are not CREDIT, and \<open>totalLiabilities\<close> is the sum of the converted
  balances of the CREDIT accounts: an account that is not CREDIT adds nothing to the
  liabilities.
\<close>

theorem metrics_netWorth_assets_liabilities:
  "netWorth (metrics rate accs) =
     jsub (totalAssets (metrics rate accs)) (totalLiabilities (metrics rate accs))
   \<and> totalAssets (metrics rate accs) =
       jsum (map (balanceInCop rate) (filter (\<lambda>a. acc_type a \<noteq> CREDIT) accs))
   \<and> totalLiabilities (metrics rate accs) =
       jsum (map (balanceInCop rate) (filter (\<lambda>a. acc_type a = CREDIT) accs))"
  apply (subst (1 2 3 4 5) metrics_def)
  apply (subst (1 2 3 4 5) metrics_fold)
  apply (simp add: jsum_def)
  done

text \<open>
  Claim C6: for every account list, \<open>buyingPower\<close> is
  \<open>liquidity + (creditLimitTotal - totalLiabilities)\<close>; and for a single CREDIT account in
  COP with balance 200,000 and credit limit 1,000,000 (its other fields and the exchange
  rate being anything) the valuation has \<open>netWorth = -200,000\<close>, \<open>liquidity = 0\<close> and
  \<open>buyingPower = 800,000\<close>.
\<close>

theorem metrics_buyingPower:
  "buyingPower (metrics rate accs) =
     jadd (liquidity (metrics rate accs))
          (jsub (creditLimitTotal (metrics rate accs)) (totalLiabilities (metrics rate accs)))
   \<and> netWorth (metrics rate [acc\<lparr>acc_type := CREDIT, acc_currency := COP,
         acc_balance := Fin 200000, acc_creditLimit := Some (Fin 1000000)\<rparr>]) = Fin (- 200000)
   \<and> liquidity (metrics rate [acc\<lparr>acc_type := CREDIT, acc_currency := COP,
         acc_balance := Fin 200000, acc_creditLimit := Some (Fin 1000000)\<rparr>]) = Fin 0
   \<and> buyingPower (metrics rate [acc\<lparr>acc_type := CREDIT, acc_currency := COP,
         acc_balance := Fin 200000, acc_creditLimit := Some (Fin 1000000)\<rparr>]) = Fin 800000"
  by (simp add: metrics_def metricsStep_def convertValue_def split: prod.splits)

section \<open>Historical reconstruction\<close>

text \<open>The loop only ever puts points in front of the ones it was given.\<close>

lemma chartLoop_append:
  "\<exists>ps. chartLoop d accs cl n i txs st pts = ps @ pts"
proof (induction d accs cl n i txs st pts rule: chartLoop.induct)
  case (1 d accs cl n i txs st pts)
  show ?case
  proof (cases "i < n")
    case False
    then show ?thesis by (simp add: chartLoop.simps)
  next
    case True
    obtain txs' st' where c: "consumeTxs accs (d i) txs st = (txs', st')"
      by (cases "consumeTxs accs (d i) txs st") auto
    from "1.IH" [OF True c [symmetric]]
    obtain ps where "chartLoop d accs cl n (Suc i) txs' st' (mkPoint (d i) cl st' # pts)
        = ps @ mkPoint (d i) cl st' # pts" by blast
    then have "chartLoop d accs cl n i txs st pts = (ps @ [mkPoint (d i) cl st']) @ pts"
      using True c by (subst chartLoop.simps) simp
    then show ?thesis by blast
  qed
qed

text \<open>The last point of the series is the one of the first iteration, today.\<close>

lemma chartLoop_last:
  assumes "0 < n"
  shows "chartLoop d accs cl n 0 txs st [] \<noteq> [] \<and>
         last (chartLoop d accs cl n 0 txs st []) =
           mkPoint (d 0) cl (snd (consumeTxs accs (d 0) txs st))"
proof -
  obtain txs' st' where c: "consumeTxs accs (d 0) txs st = (txs', st')"
    by (cases "consumeTxs accs (d 0) txs st") auto
  obtain ps where "chartLoop d accs cl n (Suc 0) txs' st' [mkPoint (d 0) cl st']
        = ps @ [mkPoint (d 0) cl st']"
    using chartLoop_append by blast
  then have "chartLoop d accs cl n 0 txs st [] = ps @ [mkPoint (d 0) cl st']"
    using assms c by (subst chartLoop.simps) simp
  then show ?thesis using c by simp
qed

text \<open>
  The \<open>while\<close> loop consumes the longest prefix of transactions dated at or after the
  start of the day, applying each in turn.
\<close>

lemma consumeTxs_takeWhile:
  "consumeTxs accs ds txs st =
     (dropWhile (\<lambda>t. ds \<le> tx_date t) txs,
      foldl (\<lambda>s t. applyTx accs t s) st (takeWhile (\<lambda>t. ds \<le> tx_date t) txs))"
  by (induction txs arbitrary: st) simp_all

lemma takeWhile_sorted_filter:
  "sorted (map k xs) \<Longrightarrow> takeWhile (\<lambda>t. k t \<le> c) xs = filter (\<lambda>t. k t \<le> (c::int)) xs"
proof (induction xs)
  case Nil
  show ?case by simp
next
  case (Cons x xs)
  show ?case
  proof (cases "k x \<le> c")
    case True
    then show ?thesis using Cons by simp
  next
    case False
    have "\<forall>y\<in>set xs. k x \<le> k y" using Cons.prems by simp
    then have "\<forall>y\<in>set xs. \<not> k y \<le> c" using False by fastforce
    then have "filter (\<lambda>t. k t \<le> c) xs = []" by (simp add: filter_empty_conv)
    then show ?thesis using False by simp
  qed
qed

text \<open>
  In the list sorted by descending date, that prefix holds every transaction dated at or
  after the start of the day.
\<close>

lemma today_prefix:
  "takeWhile (\<lambda>t. ds \<le> tx_date t) (sort_key (\<lambda>t. - tx_date t) txs) =
     filter (\<lambda>t. ds \<le> tx_date t) (sort_key (\<lambda>t. - tx_date t) txs)"
  using takeWhile_sorted_filter [of "\<lambda>t. - tx_date t" "sort_key (\<lambda>t. - tx_date t) txs" "- ds"]
  by simp

lemma applyTx_expand:
  "(\<lambda>s t. applyTx accs t s) =
   (\<lambda>st tx. case st of (curLiq, curLiabilities) \<Rightarrow>
      if map_option acc_type (find (\<lambda>a. acc_id a = tx_accountId tx) accs) = Some CREDIT
      then (curLiq,
            jsub curLiabilities
              (if truthy (tx_exchangeRateUsed tx)
               then jmul (tx_amount tx) (tx_exchangeRateUsed tx) else tx_amount tx))
      else (jsub curLiq
              (if truthy (tx_exchangeRateUsed tx)
               then jmul (tx_amount tx) (tx_exchangeRateUsed tx) else tx_amount tx),
            curLiabilities))"
  unfolding applyTx_def amountCOP_def by (rule refl)

lemma diffDaysOf_pos: "0 < diffDaysOf now"
  by (simp add: diffDaysOf_def)

text \<open>
  Claim C1, as the code has it. For every account list, transaction list, exchange rate
  and instant: the series is not empty; its last point is dated at the start of the
  current day and is computed from the liquidity and the liabilities of the valuation
  after taking out, in descending order of date, the converted amount of every
  transaction dated at or after the start of the current day, from the liabilities when
  the account of the transaction is CREDIT and from the liquidity otherwise; and so, when
  no transaction is dated at or after the start of the current day, the \<open>netWorth\<close> of the
  last point is exactly the \<open>netWorth\<close> of the valuation.
\<close>

theorem chartData_last_point_netWorth:
  "chartData cal now data \<noteq> [] \<and>
   last (chartData cal now data) =
     (case foldl (\<lambda>st tx. case st of (curLiq, curLiabilities) \<Rightarrow>
                   if map_option acc_type
                        (find (\<lambda>a. acc_id a = tx_accountId tx) (accounts data)) = Some CREDIT
                   then (curLiq,
                         jsub curLiabilities
                           (if truthy (tx_exchangeRateUsed tx)
                            then jmul (tx_amount tx) (tx_exchangeRateUsed tx)
                            else tx_amount tx))
                   else (jsub curLiq
                           (if truthy (tx_exchangeRateUsed tx)
                            then jmul (tx_amount tx) (tx_exchangeRateUsed tx)
                            else tx_amount tx),
                         curLiabilities))
             (liquidity (metrics (usdToCopRate (settings data)) (accounts data)),
              totalLiabilities (metrics (usdToCopRate (settings data)) (accounts data)))
             (filter (\<lambda>t. dayStartBefore cal now 0 \<le> tx_date t)
                (sort_key (\<lambda>t. - tx_date t) (transactions data)))
      of (liq0, liab0) \<Rightarrow>
        \<lparr> pt_date = dayStartBefore cal now 0, pt_netWorth = jsub liq0 liab0,
          pt_liquidity = liq0,
          pt_buyingPower = jadd liq0
            (jsub (creditLimitTotal (metrics (usdToCopRate (settings data)) (accounts data)))
               liab0) \<rparr>) \<and>
   (list_all (\<lambda>t. tx_date t < dayStartBefore cal now 0) (transactions data) \<longrightarrow>
      pt_netWorth (last (chartData cal now data)) =
        netWorth (metrics (usdToCopRate (settings data)) (accounts data)))"
proof -
  let ?m = "metrics (usdToCopRate (settings data)) (accounts data)"
  let ?ds = "dayStartBefore cal now 0"
  let ?today =
    "filter (\<lambda>t. ?ds \<le> tx_date t) (sort_key (\<lambda>t. - tx_date t) (transactions data))"
  let ?st =
    "foldl (\<lambda>s t. applyTx (accounts data) t s) (liquidity ?m, totalLiabilities ?m) ?today"
  have cd: "chartData cal now data =
      chartLoop (dayStartBefore cal now) (accounts data) (creditLimitTotal ?m)
        (diffDaysOf now) 0 (sortedTxs (transactions data))
        (liquidity ?m, totalLiabilities ?m) []"
    by (simp add: chartData_def Let_def)
  have snd_c: "snd (consumeTxs (accounts data) ?ds (sortedTxs (transactions data))
                 (liquidity ?m, totalLiabilities ?m)) = ?st"
    by (simp add: consumeTxs_takeWhile sortedTxs_def today_prefix)
  have l: "chartData cal now data \<noteq> [] \<and>
      last (chartData cal now data) = mkPoint ?ds (creditLimitTotal ?m) ?st"
    using chartLoop_last [OF diffDaysOf_pos, of "dayStartBefore cal now" "accounts data"
        "creditLimitTotal ?m" now "sortedTxs (transactions data)"
        "(liquidity ?m, totalLiabilities ?m)"]
    unfolding cd snd_c by simp
  have p2: "last (chartData cal now data) =
     (case ?st of (liq0, liab0) \<Rightarrow>
        \<lparr> pt_date = ?ds, pt_netWorth = jsub liq0 liab0, pt_liquidity = liq0,
          pt_buyingPower = jadd liq0 (jsub (creditLimitTotal ?m) liab0) \<rparr>)"
    using l by (simp add: mkPoint_def)
  have p3: "pt_netWorth (last (chartData cal now data)) = netWorth ?m"
    if h: "list_all (\<lambda>t. tx_date t < ?ds) (transactions data)"
  proof -
    have "?today = []"
      using h by (auto simp: filter_empty_conv list_all_iff)
    then have "?st = (liquidity ?m, totalLiabilities ?m)" by simp
    then show ?thesis
      using l by (simp add: mkPoint_def metrics_netWorth_liquidity del: jsub.simps)
  qed
  show ?thesis
    using l p2 p3 unfolding applyTx_expand by blast
qed

text \<open>
  Witness for C1: one day after its only transaction, no transaction of the example is
  dated today and the series ends on the current net worth.
\<close>

theorem chartData_last_point_netWorth_witness:
  "list_all (\<lambda>t. tx_date t < dayStartBefore utcCalendar exNextDay 0) (transactions exData) \<and>
   chartData utcCalendar exNextDay exData \<noteq> [] \<and>
   pt_netWorth (last (chartData utcCalendar exNextDay exData)) =
     netWorth (metrics (usdToCopRate (settings exData)) (accounts exData))"
proof -
  have h: "list_all (\<lambda>t. tx_date t < dayStartBefore utcCalendar exNextDay 0)
             (transactions exData)"
    by (simp add: ex_defs utcCalendar_def msPerDay_def)
  show ?thesis
    using h chartData_last_point_netWorth [of utcCalendar exNextDay exData] by blast
qed

text \<open>
  Claim C1 as stated fails: with a transaction of 100 recorded today on an account that
  now holds 100, the last point has \<open>netWorth\<close> 0 and the valuation has \<open>netWorth\<close> 100.
\<close>

theorem chartData_last_point_counterexample:
  "pt_netWorth (last (chartData utcCalendar exNow exData)) = Fin 0 \<and>
   netWorth (metrics (usdToCopRate (settings exData)) (accounts exData)) = Fin 100"
  by (simp add: ex_defs chart_defs)

text \<open>
  Claim C2, as the code has it: a transaction whose \<open>accountId\<close> matches no account is
  handled as a transaction of an account that is not CREDIT: its converted amount is
  subtracted from the running liquidity, and the running liabilities stay as they are.
\<close>

theorem applyTx_unknown_account:
  assumes "tx_accountId tx \<notin> acc_id ` set accs"
  shows "applyTx accs tx (curLiq, curLiabilities) =
           (jsub curLiq (amountCOP tx), curLiabilities)"
proof -
  have "find (\<lambda>a. acc_id a = tx_accountId tx) accs = None"
    using assms by (force simp: find_None_iff image_iff)
  then show ?thesis by (simp add: applyTx_def)
qed

text \<open>Witness for C2: the example transaction of an account that is not in the list.\<close>

theorem applyTx_unknown_account_witness:
  "tx_accountId exOrphanTx \<notin> acc_id ` set [exDebit] \<and>
   applyTx [exDebit] exOrphanTx (Fin 100, Fin 0) =
     (jsub (Fin 100) (amountCOP exOrphanTx), Fin 0)"
proof -
  have h: "tx_accountId exOrphanTx \<notin> acc_id ` set [exDebit]"
    by (simp add: ex_defs)
  show ?thesis using h applyTx_unknown_account [OF h] by simp
qed

text \<open>
  Claim C2 as stated fails: the transaction of 100 of an unknown account takes the running
  liquidity from 100 to 0, and the last point of the series shows liquidity 0 with it and
  100 without it.
\<close>

theorem applyTx_unknown_account_counterexample:
  "applyTx [exDebit] exOrphanTx (Fin 100, Fin 0) = (Fin 0, Fin 0) \<and>
   pt_liquidity (last (chartData utcCalendar exNow (exData\<lparr>transactions := [exOrphanTx]\<rparr>)))
     = Fin 0 \<and>
   pt_liquidity (last (chartData utcCalendar exNow (exData\<lparr>transactions := []\<rparr>)))
     = Fin 100"
  by (simp add: ex_defs chart_defs)

section \<open>Performance analytics\<close>

lemma timelyTxs_Nil: "timelyTxs start [] = []"
  by (simp add: timelyTxs_def)

text \<open>\<open>stats\<close> past its early returns, when the window holds a transaction in scope.\<close>

lemma stats_late:
  assumes "statsTimelyTxs cal now data timeRange dimension filterId \<noteq> []"
  shows "stats cal now data timeRange dimension filterId =
     \<lparr> ea = jmul (eaOf (statsCurrentVal data dimension filterId)
                   (statsStartVal cal now data timeRange dimension filterId)
                   (yearsOf now (startDate cal timeRange now))) (Fin 100),
       normal = jmul (normalOf (statsCurrentVal data dimension filterId)
                   (statsStartVal cal now data timeRange dimension filterId)) (Fin 100),
       projections = projectionsOf (statsCurrentVal data dimension filterId)
                   (eaOf (statsCurrentVal data dimension filterId)
                      (statsStartVal cal now data timeRange dimension filterId)
                      (yearsOf now (startDate cal timeRange now))),
       currentVal = statsCurrentVal data dimension filterId \<rparr>"
proof -
  let ?inScope = "inScopeAccs dimension filterId (accounts data)"
  let ?rtxs = "rangeTxs ?inScope (transactions data)"
  let ?ttxs = "timelyTxs (startDate cal timeRange now) ?rtxs"
  have t: "?ttxs \<noteq> []"
    using assms by (simp add: statsTimelyTxs_def statsInScope_def)
  then have r: "?rtxs \<noteq> []"
    using timelyTxs_Nil by metis
  show ?thesis
    unfolding stats_def Let_def statsCurrentVal_def statsStartVal_def statsTimelyTxs_def
      statsInScope_def
    using t r by simp
qed

text \<open>\<open>stats\<close> on its early returns, when the window holds no transaction in scope.\<close>

lemma stats_early:
  assumes "statsTimelyTxs cal now data timeRange dimension filterId = []"
  shows "stats cal now data timeRange dimension filterId =
     \<lparr> ea = Fin 0, normal = Fin 0, projections = [],
       currentVal = statsCurrentVal data dimension filterId \<rparr>"
proof -
  let ?inScope = "inScopeAccs dimension filterId (accounts data)"
  let ?rtxs = "rangeTxs ?inScope (transactions data)"
  let ?ttxs = "timelyTxs (startDate cal timeRange now) ?rtxs"
  have t: "?ttxs = []"
    using assms by (simp add: statsTimelyTxs_def statsInScope_def)
  have c: "?inScope = [] \<Longrightarrow> currentValOf (usdToCopRate (settings data)) ?inScope = Fin 0"
    by (simp add: currentValOf_def)
  show ?thesis
    unfolding stats_def Let_def statsCurrentVal_def statsStartVal_def statsTimelyTxs_def
      statsInScope_def
    using t c by (cases "?inScope = []") simp_all
qed

lemma truthy_years: "truthy (yearsOf now start) = (now \<noteq> start)"
  by (simp add: yearsOf_def Let_def)

lemma yearsOf_eq:
  "yearsOf now start = jdiv (Fin (real_of_int (now - start))) (Fin (1000 * 60 * 60 * 24 * 365))"
  by (simp add: yearsOf_def Let_def)

text \<open>
  Claim C7, as the code has it: for every scope filter and time window, \<open>startVal\<close> is
  obtained from \<open>currentVal\<close> by subtracting, one after the other in ascending order of
  date, the converted amount (\<open>amount * exchangeRateUsed\<close>, or the amount itself when the
  recorded rate is zero or not a number) of every transaction of an account in scope that
  is dated at or after the start of the window. The window has no upper end:
  transactions dated after now are subtracted as well.
\<close>

theorem stats_startVal_reverse_replay:
  "statsStartVal cal now data timeRange dimension filterId =
     foldl (\<lambda>sv tx. jsub sv (if truthy (tx_exchangeRateUsed tx)
                              then jmul (tx_amount tx) (tx_exchangeRateUsed tx)
                              else tx_amount tx))
       (statsCurrentVal data dimension filterId)
       (sort_key tx_date
          (filter (\<lambda>t. startDate cal timeRange now \<le> tx_date t)
             (filter (\<lambda>t. tx_accountId t \<in> acc_id ` set
                        (if dimension = CATEGORY \<and> filterId \<noteq> ''ALL''
                         then filter (\<lambda>a. acc_category a = Some filterId) (accounts data)
                         else if dimension = GROUP \<and> filterId \<noteq> ''ALL''
                         then filter (\<lambda>a. acc_groupId a = Some filterId) (accounts data)
                         else accounts data))
                (transactions data))))"
  by (simp add: statsStartVal_def statsTimelyTxs_def statsInScope_def startValOf_def
        timelyTxs_def rangeTxs_def inScopeAccs_def amountCOP_def Let_def del: jsub.simps)

text \<open>
  Claim C7 as stated fails: half an hour after the project start, the transaction of 100
  that the example dates half an hour later is outside the window that ends now, so that
  the wording gives \<open>startVal = 100\<close>; the code subtracts it and has \<open>startVal = 0\<close>.
\<close>

theorem stats_startVal_counterexample:
  "exBefore < tx_date exTx \<and>
   statsStartVal utcCalendar exBefore exData ''ALL'' GENERAL ''ALL'' = Fin 0 \<and>
   startValSpec utcCalendar exBefore exData ''ALL'' GENERAL ''ALL'' = Fin 100"
  by (simp add: ex_defs ex_state_defs stats_defs startValSpec_def jsum_def)

text \<open>
  Claim C8: whenever \<open>startVal\<close> is zero, whatever \<open>currentVal\<close> is, the reported normal
  return is exactly 0 (and so is the annualized one: no division by \<open>startVal\<close> takes
  place), and the reported \<open>currentVal\<close> is the one computed from the present balances.
\<close>

theorem stats_zero_startVal:
  assumes "statsStartVal cal now data timeRange dimension filterId = Fin 0"
  shows "normal (stats cal now data timeRange dimension filterId) = Fin 0 \<and>
         ea (stats cal now data timeRange dimension filterId) = Fin 0 \<and>
         currentVal (stats cal now data timeRange dimension filterId) =
           statsCurrentVal data dimension filterId"
proof (cases "statsTimelyTxs cal now data timeRange dimension filterId = []")
  case True
  show ?thesis by (simp add: stats_early [OF True])
next
  case False
  show ?thesis using assms by (simp add: stats_late [OF False] normalOf_def eaOf_def)
qed

text \<open>
  Witness for C8: the example account holds 100 after its only transaction of 100, so
  \<open>startVal\<close> is 0 while \<open>currentVal\<close> is 100.
\<close>

theorem stats_zero_startVal_witness:
  "statsStartVal utcCalendar exNextDay exData ''ALL'' GENERAL ''ALL'' = Fin 0 \<and>
   normal (stats utcCalendar exNextDay exData ''ALL'' GENERAL ''ALL'') = Fin 0 \<and>
   currentVal (stats utcCalendar exNextDay exData ''ALL'' GENERAL ''ALL'') = Fin 100"
proof -
  have h: "statsStartVal utcCalendar exNextDay exData ''ALL'' GENERAL ''ALL'' = Fin 0"
    by (simp add: ex_defs stats_defs)
  have c: "statsCurrentVal exData GENERAL ''ALL'' = Fin 100"
    by (simp add: ex_defs stats_defs)
  show ?thesis using h stats_zero_startVal [OF h] unfolding c by simp
qed

text \<open>
  Claim C3, as the code has it: for every scope filter and time window for which
  \<open>startVal\<close> is not zero and either a transaction in scope falls in the window or
  \<open>currentVal\<close> is finite, the annualized return, as a percentage, is
  \<open>((currentVal / startVal)^(1/years) - 1) * 100\<close>, where \<open>years\<close> is the length of the
  window in milliseconds divided by the milliseconds of 365 days, and is replaced by 1 only
  when that length is zero. For a window shorter than a year the exponent is therefore
  one over the fractional year length, not 1/1.
\<close>

theorem stats_ea_formula:
  assumes "statsStartVal cal now data timeRange dimension filterId \<noteq> Fin 0"
      and "statsTimelyTxs cal now data timeRange dimension filterId \<noteq> [] \<or>
           isFinite (statsCurrentVal data dimension filterId)"
  shows "ea (stats cal now data timeRange dimension filterId) =
     jmul (jsub (jpow (jdiv (statsCurrentVal data dimension filterId)
                            (statsStartVal cal now data timeRange dimension filterId))
                      (jdiv (Fin 1)
                         (if now = startDate cal timeRange now then Fin 1
                          else jdiv (Fin (real_of_int (now - startDate cal timeRange now)))
                                    (Fin (1000 * 60 * 60 * 24 * 365)))))
                (Fin 1))
          (Fin 100)"
proof (cases "statsTimelyTxs cal now data timeRange dimension filterId = []")
  case False
  have "(if truthy (yearsOf now (startDate cal timeRange now))
         then yearsOf now (startDate cal timeRange now) else Fin 1) =
        (if now = startDate cal timeRange now then Fin 1
         else jdiv (Fin (real_of_int (now - startDate cal timeRange now)))
                   (Fin (1000 * 60 * 60 * 24 * 365)))"
    by (simp add: truthy_years yearsOf_eq)
  then show ?thesis
    using assms(1)
    by (simp add: stats_late [OF False] eaOf_def
          del: jsub.simps jpow.simps jmul.simps jdiv.simps)
next
  case True
  then have sv: "statsStartVal cal now data timeRange dimension filterId =
      statsCurrentVal data dimension filterId"
    by (simp add: statsStartVal_def startValOf_def)
  from True assms(2) obtain c where c: "statsCurrentVal data dimension filterId = Fin c"
    by (cases "statsCurrentVal data dimension filterId") simp_all
  have "c \<noteq> 0" using assms(1) sv c by simp
  then show ?thesis
    by (simp add: stats_early [OF True] sv c)
qed

text \<open>
  Witness for C3: half a year after the project start, with \<open>currentVal = 200\<close> and
  \<open>startVal = 100\<close>.
\<close>

theorem stats_ea_formula_witness:
  "statsStartVal utcCalendar exHalfYear exData200 ''ALL'' GENERAL ''ALL'' \<noteq> Fin 0 \<and>
   statsTimelyTxs utcCalendar exHalfYear exData200 ''ALL'' GENERAL ''ALL'' \<noteq> [] \<and>
   isFinite (statsCurrentVal exData200 GENERAL ''ALL'') \<and>
   ea (stats utcCalendar exHalfYear exData200 ''ALL'' GENERAL ''ALL'') =
     jmul (jsub (jpow (jdiv (Fin 200) (Fin 100))
                   (jdiv (Fin 1) (jdiv (Fin 15768000000) (Fin 31536000000))))
             (Fin 1))
       (Fin 100)"
proof -
  have v: "statsStartVal utcCalendar exHalfYear exData200 ''ALL'' GENERAL ''ALL'' = Fin 100"
    by (simp add: ex_defs stats_defs)
  then have h1:
    "statsStartVal utcCalendar exHalfYear exData200 ''ALL'' GENERAL ''ALL'' \<noteq> Fin 0"
    by simp
  have c: "statsCurrentVal exData200 GENERAL ''ALL'' = Fin 200"
    by (simp add: ex_defs stats_defs)
  then have h2:
    "statsTimelyTxs utcCalendar exHalfYear exData200 ''ALL'' GENERAL ''ALL'' \<noteq> [] \<or>
     isFinite (statsCurrentVal exData200 GENERAL ''ALL'')"
    by simp
  have d: "startDate utcCalendar ''ALL'' exHalfYear = PROJECT_START_DATE"
    by (simp add: startDate_def)
  have t: "statsTimelyTxs utcCalendar exHalfYear exData200 ''ALL'' GENERAL ''ALL'' \<noteq> []"
    by (simp add: ex_defs stats_defs)
  show ?thesis using h1 t stats_ea_formula [OF h1 h2] unfolding v c d
    by (simp add: exHalfYear_def PROJECT_START_DATE_def)
qed

text \<open>
  Claim C3 as stated fails: for the window that starts half a year before now, with
  \<open>currentVal = 200\<close> and \<open>startVal = 100\<close>, the code reports 300 percent, the exponent
  being 2, where the formula with the years guarded to a minimum of 1 gives 1, that is
  100 percent.
\<close>

theorem stats_ea_counterexample:
  "ea (stats utcCalendar exHalfYear exData200 ''ALL'' GENERAL ''ALL'') = Fin 300 \<and>
   statsCurrentVal exData200 GENERAL ''ALL'' = Fin 200 \<and>
   statsStartVal utcCalendar exHalfYear exData200 ''ALL'' GENERAL ''ALL'' = Fin 100 \<and>
   yearsOf exHalfYear (startDate utcCalendar ''ALL'' exHalfYear) = Fin (1 / 2) \<and>
   eaSpec (Fin 200) (Fin 100) (1 / 2) = Fin 1 \<and>
   jmul (eaSpec (Fin 200) (Fin 100) (1 / 2)) (Fin 100) = Fin 100"
  by (simp add: ex_defs stats_defs eaSpec_def)

section \<open>State updates\<close>

text \<open>
  Claim C9: for every state, after \<open>deleteGroup\<close> the account list holds the same accounts
  in the same order, each one equal to what it was except that \<open>groupId\<close> is null where it
  was the deleted group: no account is removed, the accounts of other groups keep their
  \<open>groupId\<close>, and every balance is unchanged.
\<close>

theorem deleteGroup_detaches_accounts:
  "list_all2
     (\<lambda>a a'. a' = a\<lparr>acc_groupId :=
                      (if acc_groupId a = Some gid then None else acc_groupId a)\<rparr>)
     (accounts p) (accounts (deleteGroup gid p))
   \<and> map acc_id (accounts (deleteGroup gid p)) = map acc_id (accounts p)
   \<and> map acc_balance (accounts (deleteGroup gid p)) = map acc_balance (accounts p)"
  by (simp add: deleteGroup_def list_all2_map2 list_all2_same comp_def if_distrib
        cong: if_cong)

text \<open>
  Claim C10, as the code has it: a refresh that fetches the data puts into the state
  exactly the fetched transactions dated at or after the project start date, so that
  every transaction the valuation, the reconstruction and the analytics read from that
  state is dated at or after it; a refresh that is not configured or whose fetch fails
  leaves the state as it was; and \<open>addTransaction\<close> appends the transaction it is given
  to the transactions of the state, whatever its date.
\<close>

theorem refreshData_filters_transactions:
  "transactions (refreshData True (Some fetched) prev) =
     filter (\<lambda>t. PROJECT_START_DATE \<le> tx_date t) (transactions fetched)
   \<and> list_all (\<lambda>t. PROJECT_START_DATE \<le> tx_date t)
        (transactions (refreshData True (Some fetched) prev))
   \<and> refreshData False fetchAll prev = prev
   \<and> refreshData isConfigured None prev = prev
   \<and> transactions (addTransaction (Some uid) tx updateBal p) =
        transactions p @ [tx\<lparr> tx_userId := uid \<rparr>]"
  by (simp add: refreshData_def addTransaction_def Let_def list_all_iff)

text \<open>
  Claim C10 as stated fails: after a refresh, \<open>addTransaction\<close> of a transaction dated
  thirty days before the project start leaves that transaction in the state, and the
  analytics read it: it is in the one-year window and is subtracted there (\<open>startVal = 0\<close>),
  where the window since the project start leaves it out (\<open>startVal = 50\<close>).
\<close>

theorem refreshData_invariant_counterexample:
  "tx_date exOldTx < PROJECT_START_DATE \<and>
   transactions exBackdated = [exTx, exOldTx] \<and>
   \<not> list_all (\<lambda>t. PROJECT_START_DATE \<le> tx_date t) (transactions exBackdated) \<and>
   statsTimelyTxs utcCalendar exNextDay exBackdated ''1Y'' GENERAL ''ALL'' = [exOldTx, exTx] \<and>
   statsStartVal utcCalendar exNextDay exBackdated ''1Y'' GENERAL ''ALL'' = Fin 0 \<and>
   statsStartVal utcCalendar exNextDay exBackdated ''ALL'' GENERAL ''ALL'' = Fin 50"
  by (simp add: ex_defs ex_state_defs stats_defs utcCalendar_def msPerDay_def)

end
